theory Spec2Isabelle
  imports Complex_Main "HOL-Library.Multiset"
begin

section \<open>YT-Keyword-Analyzer: a shallow embedding of \<^verbatim>\<open>src/index.js\<close>\<close>

text \<open>
  Conventions of the embedding.
  \<^item> JavaScript numbers that reach the scorer are JSON numbers: they are modelled as
    rationals (\<^typ>\<open>rat\<close>) with exact arithmetic; the one non-finite value the program
    computes (\<open>0 / 0\<close>) is the explicit value \<open>NaN\<close> of \<open>js_number\<close>.
    \<open>Math.round x\<close> is \<open>\<lfloor>x + 1/2\<rfloor>\<close>, which is \<^const>\<open>round\<close>.
  \<^item> Strings are \<^typ>\<open>string\<close>; \<open>toLowerCase\<close> is modelled on ASCII letters.
  \<^item> \<open>Math.random\<close> is an explicit stream of draws, threaded through every call.
  \<^item> \<open>new Date().toISOString()\<close> is a parameter \<open>now\<close>.
  \<^item> A thrown exception is the \<open>Inl\<close> branch of a sum.
  \<^item> Inputs have the shape the tool's own \<open>inputSchema\<close> declares: a keyword item is a
    bare string or an object whose optional fields are strings and a number.
\<close>

subsection \<open>String primitives\<close>

definition toLowerChar :: "char \<Rightarrow> char" where
  "toLowerChar c =
     (case map_of (zip ''ABCDEFGHIJKLMNOPQRSTUVWXYZ'' ''abcdefghijklmnopqrstuvwxyz'') c of
        None \<Rightarrow> c
      | Some l \<Rightarrow> l)"

definition toLowerCase :: "string \<Rightarrow> string" where
  "toLowerCase s = map toLowerChar s"

fun startsWith :: "string \<Rightarrow> string \<Rightarrow> bool" where
  "startsWith s [] = True"
| "startsWith [] (p # ps) = False"
| "startsWith (c # cs) (p # ps) = (c = p \<and> startsWith cs ps)"

text \<open>\<open>s.includes(p)\<close>: \<open>p\<close> occurs in \<open>s\<close> as a contiguous substring.\<close>

fun includesStr :: "string \<Rightarrow> string \<Rightarrow> bool" where
  "includesStr [] p = (p = [])"
| "includesStr (c # cs) p = (startsWith (c # cs) p \<or> includesStr cs p)"

text \<open>\<open>s.split(sep)\<close> for a one-character separator; \<open>''''.split(' ')\<close> is \<open>['''']\<close>.\<close>

fun split :: "char \<Rightarrow> string \<Rightarrow> string list" where
  "split sep [] = [[]]"
| "split sep (c # cs) =
     (if c = sep then [] # split sep cs
      else (case split sep cs of [] \<Rightarrow> [[c]] | w # ws \<Rightarrow> (c # w) # ws))"

text \<open>The regular expression \<open>/202[4-9]/\<close>, tested anywhere in the string.\<close>

fun hasYearPattern :: "string \<Rightarrow> bool" where
  "hasYearPattern (a # b # c # d # rest) =
     ((a = CHR ''2'' \<and> b = CHR ''0'' \<and> c = CHR ''2'' \<and> d \<in> set ''456789'')
      \<or> hasYearPattern (b # c # d # rest))"
| "hasYearPattern s = False"

fun digitChar :: "nat \<Rightarrow> char" where
  "digitChar n = (''0123456789'' ! (n mod 10))"

text \<open>The decimal rendering of a count inside a template literal.\<close>

fun showNat :: "nat \<Rightarrow> string" where
  "showNat n = (if n < 10 then [digitChar n] else showNat (n div 10) @ [digitChar n])"

declare showNat.simps [simp del]

subsection \<open>Pattern tables (the constructor)\<close>

definition highCompetition :: "string list" where
  "highCompetition = [''tutorial'', ''how to'', ''best'', ''review'', ''top 10'', ''guide'']"

definition mediumCompetition :: "string list" where
  "mediumCompetition = [''tips'', ''tricks'', ''explained'', ''walkthrough'', ''demo'']"

definition lowCompetition :: "string list" where
  "lowCompetition = [''mistakes'', ''underrated'', ''hidden'', ''secret'', ''advanced'']"

definition trendingTopics :: "string list" where
  "trendingTopics = [''ai'', ''chatgpt'', ''automation'', ''2025'', ''2024'', ''shorts'', ''viral'']"

definition agentName :: string where
  "agentName = ''YT-Keyword-Analyzer''"

definition agentVersion :: string where
  "agentVersion = ''1.0.0''"

subsection \<open>Data model\<close>

record inputData =
  keyword :: "string option"
  category :: "string option"
  searchVolume :: "string option"
  competition :: "string option"
  relevance :: "rat option"

text \<open>A keyword item arrives as a bare string or as an object.\<close>

datatype keywordData = Bare string | Fields inputData

datatype level = Low | Medium | High

datatype difficulty = Easy | MediumDifficulty | Hard

datatype trend = Rising | Stable | Declining

datatype rating = Excellent | Good | LowRating

record analysis =
  competitionScore :: int
  competitionLevel :: level
  volumeScore :: int
  volumeLevel :: level
  trendDirection :: trend
  difficulty :: difficulty

record analyzedKeyword =
  keyword' :: string
  category' :: string
  analysis :: analysis
  relevance' :: rat
  opportunityScore :: int
  opportunityRating :: rating
  recommendation :: string

text \<open>
  What was thrown: an \<open>Error\<close> the program constructs itself, with its message, or a
  \<open>TypeError\<close> raised by the engine, identified by the operation that failed.
\<close>

datatype failed_operation =
    DestructureParams
  | DestructureArguments
  | ToLowerCaseOfUndefined

datatype js_error = Error string | TypeError failed_operation

text \<open>
  \<open>error.message\<close>: the program's own text, or the engine's description of a failed
  operation (whose wording belongs to the engine and is not any text of the program).
\<close>

datatype message = Text string | EngineText failed_operation

fun messageOf :: "js_error \<Rightarrow> message" where
  "messageOf (Error m) = Text m"
| "messageOf (TypeError op) = EngineText op"

subsection \<open>The random source\<close>

type_synonym rng = "nat \<Rightarrow> rat"

text \<open>\<open>Math.random()\<close>: returns the next draw and advances the source.\<close>

definition random :: "rng \<Rightarrow> rat \<times> rng" where
  "random g = (g 0, \<lambda>n. g (Suc n))"

subsection \<open>The keyword scorer\<close>

text \<open>
  One \<open>for (const pattern of bucket) { if (keyword.includes(pattern)) { score += delta; break; } }\<close>
  loop: the first pattern found adjusts the score and ends the loop.
\<close>

fun scanBucket :: "string list \<Rightarrow> string \<Rightarrow> int \<Rightarrow> int \<Rightarrow> int" where
  "scanBucket [] kw delta score = score"
| "scanBucket (pattern # rest) kw delta score =
     (if includesStr kw pattern then score + delta else scanBucket rest kw delta score)"

text \<open>The competition score before the clamp (lines 231 to 258).\<close>

definition unclampedCompetitionScore :: "string \<Rightarrow> int" where
  "unclampedCompetitionScore kw =
     (let s0 = 50;
          s1 = scanBucket highCompetition kw 15 s0;
          s2 = scanBucket mediumCompetition kw 5 s1;
          s3 = scanBucket lowCompetition kw (- 20) s2
      in if length (split CHR '' '' kw) \<ge> 4 then s3 - 15 else s3)"

definition clampedCompetitionScore :: "string \<Rightarrow> int" where
  "clampedCompetitionScore kw = max 10 (min 95 (unclampedCompetitionScore kw))"

text \<open>The trending loop: \<open>volumeScore = Math.min(100, volumeScore + 15); break\<close>.\<close>

fun trendingBoost :: "string list \<Rightarrow> string \<Rightarrow> int \<Rightarrow> int" where
  "trendingBoost [] kw v = v"
| "trendingBoost (topic # rest) kw v =
     (if includesStr kw topic then min 100 (v + 15) else trendingBoost rest kw v)"

definition computeVolumeScore :: "string option \<Rightarrow> string \<Rightarrow> int" where
  "computeVolumeScore sv kw =
     (let v = (if sv = Some ''high'' then 85
               else if sv = Some ''medium'' then 60
               else if sv = Some ''low'' then 35
               else 50)
      in trendingBoost trendingTopics kw v)"

text \<open>\<open>inputData.relevance || 0.5\<close>: an absent field and the falsy number 0 both give 0.5.\<close>

definition relevanceOrDefault :: "rat option \<Rightarrow> rat" where
  "relevanceOrDefault r = (case r of None \<Rightarrow> 1 / 2 | Some x \<Rightarrow> if x = 0 then 1 / 2 else x)"

text \<open>\<open>s || d\<close> on an optional string: absent and the empty string both give \<open>d\<close>.\<close>

definition orDefault :: "string option \<Rightarrow> string \<Rightarrow> string" where
  "orDefault s d = (case s of None \<Rightarrow> d | Some x \<Rightarrow> if x = [] then d else x)"

definition computeOpportunityScore :: "int \<Rightarrow> int \<Rightarrow> rat option \<Rightarrow> int" where
  "computeOpportunityScore volume cscore rel =
     round (of_int volume * (4 / 10) + of_int (100 - cscore) * (4 / 10)
            + relevanceOrDefault rel * 20)"

definition calculateTrendDirection :: "rng \<Rightarrow> string \<Rightarrow> trend \<times> rng" where
  "calculateTrendDirection g kw =
     (let trendingUp = list_ex (\<lambda>t. includesStr kw t) trendingTopics;
          hasYear = hasYearPattern kw
      in if trendingUp \<or> hasYear then (Rising, g)
         else if includesStr kw ''classic'' \<or> includesStr kw ''traditional'' then (Stable, g)
         else (let (rand, g') = random g
               in if rand > 7 / 10 then (Rising, g')
                  else if rand > 3 / 10 then (Stable, g')
                  else (Declining, g')))"

definition getKeywordRecommendation :: "int \<Rightarrow> string \<Rightarrow> string" where
  "getKeywordRecommendation score cat =
     (if score \<ge> 70 then
        (if cat = ''primary'' then ''Highly recommended for title''
         else ''Strong candidate for description/tags'')
      else if score \<ge> 50 then ''Good supporting keyword for description''
      else ''Consider for long-form content or tags only'')"

definition levelOf :: "int \<Rightarrow> level" where
  "levelOf s = (if s \<ge> 70 then High else if s \<ge> 40 then Medium else Low)"

definition difficultyOf :: "int \<Rightarrow> difficulty" where
  "difficultyOf s = (if s \<ge> 70 then Hard else if s \<ge> 40 then MediumDifficulty else Easy)"

definition ratingOf :: "int \<Rightarrow> rating" where
  "ratingOf s = (if s \<ge> 70 then Excellent else if s \<ge> 50 then Good else LowRating)"

text \<open>
  \<open>analyzeKeyword(keywordData, _niche)\<close>. The first line calls \<open>.toLowerCase()\<close> on the
  bare string or on the object's \<open>keyword\<close> field; on an object without that field the
  call is on \<open>undefined\<close> and throws before anything else happens. Past that line
  \<open>inputData.keyword\<close> is the string that was lowercased, \<open>original\<close>.
\<close>

definition keywordText :: "keywordData \<Rightarrow> string option" where
  "keywordText kd = (case kd of Bare s \<Rightarrow> Some s | Fields d \<Rightarrow> keyword d)"

text \<open>\<open>typeof keywordData === 'string' ? { keyword: keywordData } : keywordData\<close>.\<close>

definition toInputData :: "keywordData \<Rightarrow> inputData" where
  "toInputData kd =
     (case kd of
        Bare s \<Rightarrow> \<lparr>keyword = Some s, category = None, searchVolume = None,
                   competition = None, relevance = None\<rparr>
      | Fields d \<Rightarrow> d)"

definition analyzeKeyword :: "rng \<Rightarrow> keywordData \<Rightarrow> (js_error + analyzedKeyword) \<times> rng" where
  "analyzeKeyword g kd =
     (case keywordText kd of
        None \<Rightarrow> (Inl (TypeError ToLowerCaseOfUndefined), g)
      | Some original \<Rightarrow>
          (let kw = toLowerCase original;
               inp = toInputData kd;
               cscore = clampedCompetitionScore kw;
               vol = computeVolumeScore (searchVolume inp) kw;
               (td, g') = calculateTrendDirection g kw;
               opp = computeOpportunityScore vol cscore (relevance inp)
           in (Inr \<lparr>keyword' = original,
                    category' = orDefault (category inp) ''general'',
                    analysis = \<lparr>competitionScore = cscore,
                                 competitionLevel = levelOf cscore,
                                 volumeScore = vol,
                                 volumeLevel = levelOf vol,
                                 trendDirection = td,
                                 difficulty = difficultyOf cscore\<rparr>,
                    relevance' = relevanceOrDefault (relevance inp),
                    opportunityScore = opp,
                    opportunityRating = ratingOf opp,
                    recommendation =
                      getKeywordRecommendation opp (orDefault (category inp) ''general'')\<rparr>,
               g')))"

subsection \<open>The insight generator\<close>

record insight =
  insightType :: string
  insightMessage :: string
  insightKeywords :: "string list option"

definition generateInsights ::
  "analyzedKeyword list \<Rightarrow> string option \<Rightarrow> string option \<Rightarrow> insight list" where
  "generateInsights analyzedKeywords conceptArg nicheArg =
     (let categories = map category' analyzedKeywords;
          gap = (if ''long-tail'' \<notin> set categories then
                   [\<lparr>insightType = ''gap'',
                     insightMessage = ''Consider adding more long-tail keywords for better voice search optimization'',
                     insightKeywords = None\<rparr>]
                 else []);
          risingKeywords = filter (\<lambda>k. trendDirection (analysis k) = Rising) analyzedKeywords;
          opportunity = (if length risingKeywords > 0 then
                   [\<lparr>insightType = ''opportunity'',
                     insightMessage = showNat (length risingKeywords)
                        @ '' keywords are trending up - prioritize these for timely content'',
                     insightKeywords = Some (map keyword' (take 3 risingKeywords))\<rparr>]
                 else []);
          easyWins = filter (\<lambda>k. difficulty (analysis k) = Easy \<and> volumeScore (analysis k) \<ge> 40)
                       analyzedKeywords;
          quickWin = (if length easyWins > 0 then
                   [\<lparr>insightType = ''quick-win'',
                     insightMessage = ''Found '' @ showNat (length easyWins)
                        @ '' low-competition keywords with decent volume'',
                     insightKeywords = Some (map keyword' (take 3 easyWins))\<rparr>]
                 else []);
          nicheNote = (case nicheArg of
                   None \<Rightarrow> []
                 | Some n \<Rightarrow>
                     if n = [] then []
                     else [\<lparr>insightType = ''niche'',
                            insightMessage = ''For '' @ n
                              @ '' content, focus on specific terminology and community language'',
                            insightKeywords = None\<rparr>])
      in gap @ opportunity @ quickWin @ nicheNote)"

subsection \<open>The batch analyzer\<close>

text \<open>The value of the \<open>keywords\<close> property of the arguments object, by JavaScript type.\<close>

datatype keywordsValue =
    Undefined
  | Null
  | BooleanValue bool
  | NumberValue rat
  | StringValue string
  | ObjectValue
  | ArrayValue "keywordData list"

fun truthy :: "keywordsValue \<Rightarrow> bool" where
  "truthy Undefined = False"
| "truthy Null = False"
| "truthy (BooleanValue b) = b"
| "truthy (NumberValue x) = (x \<noteq> 0)"
| "truthy (StringValue s) = (s \<noteq> [])"
| "truthy ObjectValue = True"
| "truthy (ArrayValue xs) = True"

fun isArray :: "keywordsValue \<Rightarrow> bool" where
  "isArray (ArrayValue xs) = True"
| "isArray v = False"

fun elements :: "keywordsValue \<Rightarrow> keywordData list" where
  "elements (ArrayValue xs) = xs"
| "elements v = []"

record arguments =
  keywords' :: keywordsValue
  concept :: "string option"
  targetAudience :: "string option"
  niche :: "string option"

text \<open>The result of \<open>Math.round(sum / length)\<close>: an integer, or \<open>NaN\<close> from \<open>0 / 0\<close>.\<close>

datatype js_number = NaN | Num int

record summary =
  topOpportunities :: nat
  goodOpportunities :: nat
  lowPriority :: nat
  averageOpportunityScore :: js_number

record recommended =
  primary :: "analyzedKeyword list"
  secondary :: "analyzedKeyword list"
  longTail :: "analyzedKeyword list"

record report =
  concept' :: string
  targetAudience' :: string
  niche' :: string
  analyzedAt :: string
  totalAnalyzed :: nat
  summary :: summary
  recommended :: recommended
  allKeywords :: "analyzedKeyword list"
  insights :: "insight list"
  nextSteps :: "string list"

text \<open>\<open>keywords.map(kw => this.analyzeKeyword(kw, niche))\<close>, in order; a throw ends it.\<close>

fun analyzeEach :: "rng \<Rightarrow> keywordData list \<Rightarrow> (js_error + analyzedKeyword list) \<times> rng" where
  "analyzeEach g [] = (Inr [], g)"
| "analyzeEach g (kd # kds) =
     (case analyzeKeyword g kd of
        (Inl e, g') \<Rightarrow> (Inl e, g')
      | (Inr k, g') \<Rightarrow>
          (case analyzeEach g' kds of
             (Inl e, g'') \<Rightarrow> (Inl e, g'')
           | (Inr ks, g'') \<Rightarrow> (Inr (k # ks), g'')))"

text \<open>The comparator \<open>(a, b) => b.opportunityScore - a.opportunityScore\<close>.\<close>

definition compareFn :: "analyzedKeyword \<Rightarrow> analyzedKeyword \<Rightarrow> int" where
  "compareFn a b = opportunityScore b - opportunityScore a"

text \<open>
  \<open>Array.prototype.sort\<close> with a comparator. The language guarantees a stable sort; the
  model is the stable insertion sort: an element is placed after every element that the
  comparator does not put behind it.
\<close>

fun insertSorted :: "('a \<Rightarrow> 'a \<Rightarrow> int) \<Rightarrow> 'a \<Rightarrow> 'a list \<Rightarrow> 'a list" where
  "insertSorted cmp x [] = [x]"
| "insertSorted cmp x (y # ys) =
     (if cmp x y \<le> 0 then x # y # ys else y # insertSorted cmp x ys)"

definition sortWith :: "('a \<Rightarrow> 'a \<Rightarrow> int) \<Rightarrow> 'a list \<Rightarrow> 'a list" where
  "sortWith cmp xs = foldr (insertSorted cmp) xs []"

definition topKeywords :: "analyzedKeyword list \<Rightarrow> analyzedKeyword list" where
  "topKeywords aks = filter (\<lambda>k. opportunityScore k \<ge> 70) aks"

definition goodKeywords :: "analyzedKeyword list \<Rightarrow> analyzedKeyword list" where
  "goodKeywords aks = filter (\<lambda>k. opportunityScore k \<ge> 50 \<and> opportunityScore k < 70) aks"

definition lowPriorityKeywords :: "analyzedKeyword list \<Rightarrow> analyzedKeyword list" where
  "lowPriorityKeywords aks = filter (\<lambda>k. opportunityScore k < 50) aks"

text \<open>
  \<open>Math.round(analyzedKeywords.reduce((sum, k) => sum + k.opportunityScore, 0) / analyzedKeywords.length)\<close>.
  On the empty array the quotient is \<open>0 / 0\<close>, which is \<open>NaN\<close>, and \<open>Math.round(NaN)\<close> is \<open>NaN\<close>.
\<close>

definition averageScore :: "analyzedKeyword list \<Rightarrow> js_number" where
  "averageScore aks =
     (let total = foldl (\<lambda>sum k. sum + opportunityScore k) 0 aks
      in if length aks = 0 then NaN
         else Num (round ((of_int total :: rat) / of_nat (length aks))))"

text \<open>\<open>recommended.primary[0]?.keyword || 'top keyword'\<close>.\<close>

definition firstKeywordOr :: "analyzedKeyword list \<Rightarrow> string \<Rightarrow> string" where
  "firstKeywordOr ks d =
     (case ks of [] \<Rightarrow> d | k # rest \<Rightarrow> if keyword' k = [] then d else keyword' k)"

definition analyzeKeywords ::
  "rng \<Rightarrow> string \<Rightarrow> arguments option \<Rightarrow> (js_error + report) \<times> rng" where
  "analyzeKeywords g now args =
     (case args of
        None \<Rightarrow> (Inl (TypeError DestructureArguments), g)
      | Some a \<Rightarrow>
          if \<not> truthy (keywords' a) \<or> \<not> isArray (keywords' a)
          then (Inl (Error ''Keywords array is required''), g)
          else
            (case analyzeEach g (elements (keywords' a)) of
               (Inl e, g') \<Rightarrow> (Inl e, g')
             | (Inr mapped, g') \<Rightarrow>
                 (let analyzedKeywords = sortWith compareFn mapped;
                      top = topKeywords analyzedKeywords;
                      good = goodKeywords analyzedKeywords;
                      low = lowPriorityKeywords analyzedKeywords;
                      ins = generateInsights analyzedKeywords (concept a) (niche a);
                      rec = \<lparr>primary = take 3 top,
                             secondary = take 5 good,
                             longTail = take 10
                               (filter (\<lambda>k. category' k = ''long-tail'') analyzedKeywords)\<rparr>
                  in (Inr \<lparr>concept' = orDefault (concept a) ''Not specified'',
                           targetAudience' = orDefault (targetAudience a) ''general'',
                           niche' = orDefault (niche a) ''general'',
                           analyzedAt = now,
                           totalAnalyzed = length analyzedKeywords,
                           summary = \<lparr>topOpportunities = length top,
                                      goodOpportunities = length good,
                                      lowPriority = length low,
                                      averageOpportunityScore = averageScore analyzedKeywords\<rparr>,
                           recommended = rec,
                           allKeywords = analyzedKeywords,
                           insights = ins,
                           nextSteps =
                             [''Use '' @ [CHR 0x22] @ firstKeywordOr (primary rec) ''top keyword''
                                @ [CHR 0x22] @ '' as your main title keyword'',
                              ''Incorporate secondary keywords naturally in your description'',
                              ''Use long-tail keywords in your video script for voice search optimization'',
                              ''Monitor trending topics for timely content opportunities'']\<rparr>,
                      g'))))"

subsection \<open>The request router and the message handler\<close>

datatype rpc_id = IdAbsent | IdNull | IdNumber rat | IdString string

record params =
  name :: "string option"
  arguments :: "arguments option"

record request =
  method' :: "string option"
  params :: "params option"
  id' :: rpc_id

record pingResult =
  status :: string
  agent :: string
  version :: string
  timestamp :: string

text \<open>The descriptor of \<open>tools/list\<close>, with the property names of its input schema.\<close>

record tool =
  toolName :: string
  description :: string
  properties :: "string list"
  required :: "string list"

datatype result =
    Ping pingResult
  | Tools "tool list"
  | Content report

text \<open>The two envelopes: \<open>{jsonrpc, result, id}\<close> and \<open>{jsonrpc, error: {code, message}, id}\<close>.\<close>

datatype response =
    Result result rpc_id
  | ErrorEnvelope int message rpc_id

text \<open>A string option inside a template literal: an absent value prints as \<open>undefined\<close>.\<close>

definition interpolate :: "string option \<Rightarrow> string" where
  "interpolate s = (case s of None \<Rightarrow> ''undefined'' | Some x \<Rightarrow> x)"

definition handlePing :: "string \<Rightarrow> rpc_id \<Rightarrow> response" where
  "handlePing now i =
     Result (Ping \<lparr>status = ''ok'', agent = agentName, version = agentVersion,
                   timestamp = now\<rparr>) i"

definition handleToolsList :: "rpc_id \<Rightarrow> response" where
  "handleToolsList i =
     Result (Tools [\<lparr>toolName = ''analyzeKeywords'',
                     description = ''Analyze keywords for competition, search volume, and SEO potential'',
                     properties = [''keywords'', ''concept'', ''targetAudience'', ''niche''],
                     required = [''keywords'']\<rparr>]) i"

text \<open>
  \<open>handleToolCall(params, id)\<close>. The destructuring of \<open>params\<close> is outside the \<open>try\<close>:
  on an absent \<open>params\<close> it throws out of the function. Everything \<open>analyzeKeywords\<close>
  throws is caught and answered with code -32603.
\<close>

definition handleToolCall ::
  "rng \<Rightarrow> string \<Rightarrow> params option \<Rightarrow> rpc_id \<Rightarrow> (js_error + response) \<times> rng" where
  "handleToolCall g now ps i =
     (case ps of
        None \<Rightarrow> (Inl (TypeError DestructureParams), g)
      | Some p \<Rightarrow>
          if name p \<noteq> Some ''analyzeKeywords''
          then (Inr (ErrorEnvelope (- 32602) (Text (''Unknown tool: '' @ interpolate (name p))) i), g)
          else
            (case analyzeKeywords g now (arguments p) of
               (Inr rep, g') \<Rightarrow> (Inr (Result (Content rep) i), g')
             | (Inl e, g') \<Rightarrow> (Inr (ErrorEnvelope (- 32603) (messageOf e) i), g')))"

definition handleRequest :: "rng \<Rightarrow> string \<Rightarrow> request \<Rightarrow> (js_error + response) \<times> rng" where
  "handleRequest g now req =
     (if method' req = Some ''ping'' then (Inr (handlePing now (id' req)), g)
      else if method' req = Some ''tools/list'' then (Inr (handleToolsList (id' req)), g)
      else if method' req = Some ''tools/call'' then handleToolCall g now (params req) (id' req)
      else (Inr (ErrorEnvelope (- 32601)
                   (Text (''Method not found: '' @ interpolate (method' req))) (id' req)), g))"

text \<open>
  What arrives on the socket: text that \<open>JSON.parse\<close> rejects, or a parsed envelope.
\<close>

datatype inbound = Malformed | Parsed request

text \<open>
  The \<open>message\<close> handler of \<open>start\<close>: whatever is thrown inside its \<open>try\<close>, by the
  parser or by the router, is answered with the parse-error envelope.
\<close>

definition onMessage :: "rng \<Rightarrow> string \<Rightarrow> inbound \<Rightarrow> response \<times> rng" where
  "onMessage g now msg =
     (case msg of
        Malformed \<Rightarrow> (ErrorEnvelope (- 32700) (Text ''Parse error'') IdNull, g)
      | Parsed req \<Rightarrow>
          (case handleRequest g now req of
             (Inr resp, g') \<Rightarrow> (resp, g')
           | (Inl e, g') \<Rightarrow> (ErrorEnvelope (- 32700) (Text ''Parse error'') IdNull, g')))"

section \<open>Properties of the scorer\<close>

lemma scanBucket_eq:
  "scanBucket ps kw d s = (if list_ex (includesStr kw) ps then s + d else s)"
  by (induction ps) auto

lemma years_step:
  "list_ex (includesStr (a # t)) [''2024'', ''2025'', ''2026'', ''2027'', ''2028'', ''2029'']
   \<longleftrightarrow> list_ex (startsWith (a # t)) [''2024'', ''2025'', ''2026'', ''2027'', ''2028'', ''2029'']
        \<or> list_ex (includesStr t) [''2024'', ''2025'', ''2026'', ''2027'', ''2028'', ''2029'']"
  by (simp del: startsWith.simps) blast

lemma years_here:
  "list_ex (startsWith (a # b # c # d # rest)) [''2024'', ''2025'', ''2026'', ''2027'', ''2028'', ''2029'']
   \<longleftrightarrow> a = CHR ''2'' \<and> b = CHR ''0'' \<and> c = CHR ''2'' \<and> d \<in> set ''456789''"
  by simp blast

lemma hasYearPattern_iff:
  "hasYearPattern s \<longleftrightarrow>
     list_ex (includesStr s) [''2024'', ''2025'', ''2026'', ''2027'', ''2028'', ''2029'']"
proof (induction s rule: hasYearPattern.induct)
  case (1 a b c d rest)
  have "hasYearPattern (a # b # c # d # rest)
        \<longleftrightarrow> (a = CHR ''2'' \<and> b = CHR ''0'' \<and> c = CHR ''2'' \<and> d \<in> set ''456789'')
            \<or> hasYearPattern (b # c # d # rest)"
    by (simp only: hasYearPattern.simps)
  also have "\<dots> \<longleftrightarrow>
       list_ex (startsWith (a # b # c # d # rest)) [''2024'', ''2025'', ''2026'', ''2027'', ''2028'', ''2029'']
       \<or> list_ex (includesStr (b # c # d # rest)) [''2024'', ''2025'', ''2026'', ''2027'', ''2028'', ''2029'']"
    by (simp only: years_here "1.IH")
  also have "\<dots> \<longleftrightarrow>
       list_ex (includesStr (a # b # c # d # rest)) [''2024'', ''2025'', ''2026'', ''2027'', ''2028'', ''2029'']"
    by (simp only: years_step[of a "b # c # d # rest"])
  finally show ?case .
qed simp_all

lemmas table_defs = highCompetition_def mediumCompetition_def lowCompetition_def trendingTopics_def

lemmas scorer_defs =
  analyzeKeyword_def keywordText_def toInputData_def toLowerCase_def toLowerChar_def
  clampedCompetitionScore_def unclampedCompetitionScore_def computeVolumeScore_def
  computeOpportunityScore_def relevanceOrDefault_def orDefault_def calculateTrendDirection_def
  getKeywordRecommendation_def levelOf_def difficultyOf_def ratingOf_def random_def table_defs

lemma analyzeKeyword_Inr:
  assumes "analyzeKeyword g kd = (Inr k, g')"
  shows "\<exists>original. keywordText kd = Some original \<and>
           keyword' k = original \<and>
           category' k = orDefault (category (toInputData kd)) ''general'' \<and>
           competitionScore (analysis k) = clampedCompetitionScore (toLowerCase original) \<and>
           volumeScore (analysis k) =
             computeVolumeScore (searchVolume (toInputData kd)) (toLowerCase original) \<and>
           (trendDirection (analysis k), g') = calculateTrendDirection g (toLowerCase original) \<and>
           difficulty (analysis k) = difficultyOf (competitionScore (analysis k)) \<and>
           relevance' k = relevanceOrDefault (relevance (toInputData kd)) \<and>
           opportunityScore k =
             computeOpportunityScore (volumeScore (analysis k)) (competitionScore (analysis k))
               (relevance (toInputData kd)) \<and>
           recommendation k = getKeywordRecommendation (opportunityScore k) (category' k)"
  using assms
  by (auto simp: analyzeKeyword_def Let_def split: option.splits prod.splits)

lemma analyzeKeyword_eval:
  assumes "keywordText kd = Some original"
    and "toLowerCase original = kw"
    and "clampedCompetitionScore kw = cs"
    and "computeVolumeScore (searchVolume (toInputData kd)) kw = vol"
    and "calculateTrendDirection g kw = (td, g')"
    and "computeOpportunityScore vol cs (relevance (toInputData kd)) = opp"
    and "orDefault (category (toInputData kd)) ''general'' = cat"
  shows "analyzeKeyword g kd =
     (Inr \<lparr>keyword' = original, category' = cat,
            analysis = \<lparr>competitionScore = cs, competitionLevel = levelOf cs,
                         volumeScore = vol, volumeLevel = levelOf vol,
                         trendDirection = td, difficulty = difficultyOf cs\<rparr>,
            relevance' = relevanceOrDefault (relevance (toInputData kd)),
            opportunityScore = opp, opportunityRating = ratingOf opp,
            recommendation = getKeywordRecommendation opp cat\<rparr>, g')"
  using assms by (simp add: analyzeKeyword_def Let_def)

lemma analyzeKeyword_Inl:
  "analyzeKeyword g kd = (Inl e, g') \<Longrightarrow> e = TypeError ToLowerCaseOfUndefined \<and> g' = g"
  by (auto simp: analyzeKeyword_def Let_def split: option.splits prod.splits)

lemma analyzeKeyword_total:
  assumes "keywordText kd \<noteq> None"
  shows "\<exists>k g'. analyzeKeyword g kd = (Inr k, g')"
proof -
  from assms obtain original where o: "keywordText kd = Some original" by auto
  obtain td g' where "calculateTrendDirection g (toLowerCase original) = (td, g')"
    by (cases "calculateTrendDirection g (toLowerCase original)")
  from analyzeKeyword_eval[OF o refl refl refl this refl refl] show ?thesis by blast
qed

text \<open>
  C2. Each of the three competition buckets is scanned on its own: a bucket changes the
  score by its adjustment exactly when the keyword contains at least one of its terms,
  once, however many of its terms occur; the adjustments of the buckets that match
  (+15, +5, -20) add up, together with the long-tail relief.
\<close>
theorem bucket_adjustments_independent:
  "scanBucket bucket kw delta score
     = (if \<exists>p \<in> set bucket. includesStr kw p then score + delta else score)
   \<and> unclampedCompetitionScore kw
     = 50 + (if \<exists>p \<in> set highCompetition. includesStr kw p then 15 else 0)
          + (if \<exists>p \<in> set mediumCompetition. includesStr kw p then 5 else 0)
          - (if \<exists>p \<in> set lowCompetition. includesStr kw p then 20 else 0)
          - (if length (split CHR '' '' kw) \<ge> 4 then 15 else 0)"
  by (simp add: scanBucket_eq unclampedCompetitionScore_def Let_def list_ex_iff)

theorem bucket_adjustments_independent_witness:
  "scanBucket highCompetition ''best tutorial tips and hidden tricks'' 15 50 = 65
   \<and> unclampedCompetitionScore ''best tutorial tips and hidden tricks'' = 35"
  using bucket_adjustments_independent
    [of highCompetition "''best tutorial tips and hidden tricks''" 15 50]
  by (simp add: table_defs)

text \<open>
  C4. Every analyzed keyword has a competition score between 10 and 95.
\<close>
theorem competitionScore_clamped:
  assumes "analyzeKeyword g kd = (Inr k, g')"
  shows "10 \<le> competitionScore (analysis k) \<and> competitionScore (analysis k) \<le> 95"
proof -
  from analyzeKeyword_Inr[OF assms] obtain original where
    "competitionScore (analysis k) = clampedCompetitionScore (toLowerCase original)" by blast
  then show ?thesis by (simp add: clampedCompetitionScore_def)
qed

theorem competitionScore_clamped_witness:
  "analyzeKeyword (\<lambda>n. 1 / 2) (Bare ''Hidden Secret Mistakes Advanced'')
     = (Inr \<lparr>keyword' = ''Hidden Secret Mistakes Advanced'', category' = ''general'',
              analysis = \<lparr>competitionScore = 15, competitionLevel = Low, volumeScore = 50,
                           volumeLevel = Medium, trendDirection = Stable, difficulty = Easy\<rparr>,
              relevance' = 1 / 2, opportunityScore = 64, opportunityRating = Good,
              recommendation = ''Good supporting keyword for description''\<rparr>, \<lambda>n. 1 / 2)
   \<and> (10::int) \<le> 15 \<and> (15::int) \<le> 95"
proof -
  have e: "analyzeKeyword (\<lambda>n. 1 / 2) (Bare ''Hidden Secret Mistakes Advanced'')
     = (Inr \<lparr>keyword' = ''Hidden Secret Mistakes Advanced'', category' = ''general'',
              analysis = \<lparr>competitionScore = 15, competitionLevel = Low, volumeScore = 50,
                           volumeLevel = Medium, trendDirection = Stable, difficulty = Easy\<rparr>,
              relevance' = 1 / 2, opportunityScore = 64, opportunityRating = Good,
              recommendation = ''Good supporting keyword for description''\<rparr>, \<lambda>n. 1 / 2)"
    by (subst analyzeKeyword_eval[where kw = "''hidden secret mistakes advanced''" and cs = 15
          and vol = 50 and td = Stable and g' = "\<lambda>n. 1 / 2" and opp = 64 and cat = "''general''"])
       (simp_all add: scorer_defs)
  show ?thesis using e competitionScore_clamped[OF e] by simp
qed

text \<open>
  C8. The trend of an analyzed keyword, from its lowercased text: rising, with no random
  draw, when the text contains a trending topic or one of the years 2024 to 2029 (which is
  what the pattern \<open>/202[4-9]/\<close> matches); otherwise stable, with no draw, when it
  contains \<open>classic\<close> or \<open>traditional\<close>; otherwise one draw \<open>r\<close> is consumed and the
  trend is rising if \<open>r > 0.7\<close>, stable if \<open>r > 0.3\<close>, else declining. (That the draw is
  uniform is a property of the random source, which the model takes as given.)
\<close>
theorem trendDirection_rule:
  assumes "analyzeKeyword g kd = (Inr k, g')"
    and "kw = toLowerCase (keyword' k)"
    and "trending = (\<exists>t \<in> set trendingTopics. includesStr kw t)"
    and "year = (\<exists>y \<in> set [''2024'', ''2025'', ''2026'', ''2027'', ''2028'', ''2029'']. includesStr kw y)"
    and "classic = (includesStr kw ''classic'' \<or> includesStr kw ''traditional'')"
  shows "(trending \<or> year \<longrightarrow> trendDirection (analysis k) = Rising \<and> g' = g)
    \<and> (\<not> (trending \<or> year) \<and> classic \<longrightarrow> trendDirection (analysis k) = Stable \<and> g' = g)
    \<and> (\<not> (trending \<or> year) \<and> \<not> classic \<longrightarrow>
          trendDirection (analysis k)
            = (if g 0 > 7 / 10 then Rising else if g 0 > 3 / 10 then Stable else Declining)
          \<and> g' = (\<lambda>n. g (Suc n)))"
proof -
  from analyzeKeyword_Inr[OF assms(1)] assms(2)
  have td: "(trendDirection (analysis k), g') = calculateTrendDirection g kw" by auto
  have y: "hasYearPattern kw = year"
    by (simp add: hasYearPattern_iff assms(4) list_ex_iff)
  have t: "list_ex (\<lambda>t. includesStr kw t) trendingTopics = trending"
    by (simp add: assms(3) list_ex_iff)
  show ?thesis
    using td unfolding calculateTrendDirection_def Let_def y t assms(5) random_def
    by (auto split: if_splits)
qed

theorem trendDirection_rule_witness:
  "analyzeKeyword (\<lambda>n. 1 / 2) (Bare ''Tea'')
     = (Inr \<lparr>keyword' = ''Tea'', category' = ''general'',
              analysis = \<lparr>competitionScore = 50, competitionLevel = Medium, volumeScore = 50,
                           volumeLevel = Medium, trendDirection = Stable,
                           difficulty = MediumDifficulty\<rparr>,
              relevance' = 1 / 2, opportunityScore = 50, opportunityRating = Good,
              recommendation = ''Good supporting keyword for description''\<rparr>, \<lambda>n. 1 / 2)
   \<and> \<not> (\<exists>t \<in> set trendingTopics. includesStr ''tea'' t)
   \<and> \<not> (\<exists>y \<in> set [''2024'', ''2025'', ''2026'', ''2027'', ''2028'', ''2029'']. includesStr ''tea'' y)
   \<and> \<not> (includesStr ''tea'' ''classic'' \<or> includesStr ''tea'' ''traditional'')
   \<and> Stable = (if (1 / 2 :: rat) > 7 / 10 then Rising else if (1 / 2 :: rat) > 3 / 10 then Stable else Declining)"
proof -
  have e: "analyzeKeyword (\<lambda>n. 1 / 2) (Bare ''Tea'')
     = (Inr \<lparr>keyword' = ''Tea'', category' = ''general'',
              analysis = \<lparr>competitionScore = 50, competitionLevel = Medium, volumeScore = 50,
                           volumeLevel = Medium, trendDirection = Stable,
                           difficulty = MediumDifficulty\<rparr>,
              relevance' = 1 / 2, opportunityScore = 50, opportunityRating = Good,
              recommendation = ''Good supporting keyword for description''\<rparr>, \<lambda>n. 1 / 2)"
    by (subst analyzeKeyword_eval[where kw = "''tea''" and cs = 50 and vol = 50 and td = Stable
          and g' = "\<lambda>n. 1 / 2" and opp = 50 and cat = "''general''"])
       (simp_all add: scorer_defs)
  show ?thesis
    using e trendDirection_rule[OF e refl refl refl refl]
    by (simp add: table_defs toLowerCase_def toLowerChar_def)
qed

text \<open>
  C9. Scoring is deterministic apart from the trend draw: if the scorer returns on an input
  under one random source, it returns on the same input under any other, with the same
  competition score, volume score, opportunity score, difficulty and recommendation; the
  two results differ at most in \<open>trendDirection\<close>.
\<close>
theorem scoring_deterministic:
  assumes "analyzeKeyword g1 kd = (Inr k1, h1)"
  shows "\<exists>k2 h2. analyzeKeyword g2 kd = (Inr k2, h2)
           \<and> competitionScore (analysis k2) = competitionScore (analysis k1)
           \<and> volumeScore (analysis k2) = volumeScore (analysis k1)
           \<and> opportunityScore k2 = opportunityScore k1
           \<and> difficulty (analysis k2) = difficulty (analysis k1)
           \<and> recommendation k2 = recommendation k1
           \<and> k2 = k1\<lparr>analysis := (analysis k1)\<lparr>trendDirection := trendDirection (analysis k2)\<rparr>\<rparr>"
proof -
  from assms obtain original where o: "keywordText kd = Some original"
    by (auto simp: analyzeKeyword_def split: option.splits)
  obtain td1 r1 where c1: "calculateTrendDirection g1 (toLowerCase original) = (td1, r1)"
    by (cases "calculateTrendDirection g1 (toLowerCase original)")
  obtain td2 r2 where c2: "calculateTrendDirection g2 (toLowerCase original) = (td2, r2)"
    by (cases "calculateTrendDirection g2 (toLowerCase original)")
  show ?thesis
    using assms o c1 c2 by (auto simp: analyzeKeyword_def Let_def)
qed

theorem scoring_deterministic_witness:
  "analyzeKeyword (\<lambda>n. 9 / 10) (Bare ''Tea'')
     = (Inr \<lparr>keyword' = ''Tea'', category' = ''general'',
              analysis = \<lparr>competitionScore = 50, competitionLevel = Medium, volumeScore = 50,
                           volumeLevel = Medium, trendDirection = Rising,
                           difficulty = MediumDifficulty\<rparr>,
              relevance' = 1 / 2, opportunityScore = 50, opportunityRating = Good,
              recommendation = ''Good supporting keyword for description''\<rparr>, \<lambda>n. 9 / 10)
   \<and> (\<exists>k2 h2. analyzeKeyword (\<lambda>n. 1 / 10) (Bare ''Tea'') = (Inr k2, h2)
         \<and> trendDirection (analysis k2) = Declining
         \<and> competitionScore (analysis k2) = 50
         \<and> volumeScore (analysis k2) = 50
         \<and> opportunityScore k2 = 50
         \<and> difficulty (analysis k2) = MediumDifficulty
         \<and> recommendation k2 = ''Good supporting keyword for description'')"
proof -
  have e: "analyzeKeyword (\<lambda>n. 9 / 10) (Bare ''Tea'')
     = (Inr \<lparr>keyword' = ''Tea'', category' = ''general'',
              analysis = \<lparr>competitionScore = 50, competitionLevel = Medium, volumeScore = 50,
                           volumeLevel = Medium, trendDirection = Rising,
                           difficulty = MediumDifficulty\<rparr>,
              relevance' = 1 / 2, opportunityScore = 50, opportunityRating = Good,
              recommendation = ''Good supporting keyword for description''\<rparr>, \<lambda>n. 9 / 10)"
    by (subst analyzeKeyword_eval[where kw = "''tea''" and cs = 50 and vol = 50 and td = Rising
          and g' = "\<lambda>n. 9 / 10" and opp = 50 and cat = "''general''"])
       (simp_all add: scorer_defs)
  have e2: "analyzeKeyword (\<lambda>n. 1 / 10) (Bare ''Tea'')
     = (Inr \<lparr>keyword' = ''Tea'', category' = ''general'',
              analysis = \<lparr>competitionScore = 50, competitionLevel = Medium, volumeScore = 50,
                           volumeLevel = Medium, trendDirection = Declining,
                           difficulty = MediumDifficulty\<rparr>,
              relevance' = 1 / 2, opportunityScore = 50, opportunityRating = Good,
              recommendation = ''Good supporting keyword for description''\<rparr>, \<lambda>n. 1 / 10)"
    by (subst analyzeKeyword_eval[where kw = "''tea''" and cs = 50 and vol = 50 and td = Declining
          and g' = "\<lambda>n. 1 / 10" and opp = 50 and cat = "''general''"])
       (simp_all add: scorer_defs)
  have d: "trendDirection (analysis k2) = Declining"
    if "analyzeKeyword (\<lambda>n. 1 / 10) (Bare ''Tea'') = (Inr k2, h2)" for k2 h2
    using that e2 by auto
  from scoring_deterministic[OF e, of "\<lambda>n. 1 / 10"] obtain k2 h2 where
    k2: "analyzeKeyword (\<lambda>n. 1 / 10) (Bare ''Tea'') = (Inr k2, h2)"
      "competitionScore (analysis k2) = 50" "volumeScore (analysis k2) = 50"
      "opportunityScore k2 = 50" "difficulty (analysis k2) = MediumDifficulty"
      "recommendation k2 = ''Good supporting keyword for description''"
    by auto
  from k2 d[OF k2(1)] e show ?thesis by blast
qed

lemma opportunityScore_formula:
  assumes "analyzeKeyword g kd = (Inr k, g')"
  shows "opportunityScore k =
           round (of_int (volumeScore (analysis k)) * (4 / 10)
                  + of_int (100 - competitionScore (analysis k)) * (4 / 10)
                  + (case relevance (toInputData kd) of
                       None \<Rightarrow> 1 / 2
                     | Some r \<Rightarrow> if r = 0 then 1 / 2 else r) * 20)"
  using analyzeKeyword_Inr[OF assms]
  by (auto simp: computeOpportunityScore_def relevanceOrDefault_def)

text \<open>
  C1. The opportunity score at an explicit relevance of 0. The scorer reads the field as
  \<open>inputData.relevance || 0.5\<close>, and \<open>0 || 0.5\<close> is 0.5: on the keyword \<open>classic\<close> with
  relevance 0 (volume score 50, competition score 50) the opportunity score is 50 and the
  reported relevance is 0.5, where \<open>round(50 * 0.4 + (100 - 50) * 0.4 + 0 * 20)\<close> is 40.
  At these scores the relevance 0 gives 50 and the relevance 0.1 gives 42.
\<close>
theorem relevance_zero_scored_as_half:
  "analyzeKeyword g (Fields \<lparr>keyword = Some ''classic'', category = None, searchVolume = None,
                               competition = None, relevance = Some 0\<rparr>)
     = (Inr \<lparr>keyword' = ''classic'', category' = ''general'',
              analysis = \<lparr>competitionScore = 50, competitionLevel = Medium, volumeScore = 50,
                           volumeLevel = Medium, trendDirection = Stable,
                           difficulty = MediumDifficulty\<rparr>,
              relevance' = 1 / 2, opportunityScore = 50, opportunityRating = Good,
              recommendation = ''Good supporting keyword for description''\<rparr>, g)
   \<and> round ((50 :: rat) * (4 / 10) + (100 - 50) * (4 / 10) + 0 * 20) = 40
   \<and> computeOpportunityScore 50 50 (Some 0) = 50
   \<and> computeOpportunityScore 50 50 (Some (1 / 10)) = 42"
proof -
  have "analyzeKeyword g (Fields \<lparr>keyword = Some ''classic'', category = None, searchVolume = None,
                               competition = None, relevance = Some 0\<rparr>)
     = (Inr \<lparr>keyword' = ''classic'', category' = ''general'',
              analysis = \<lparr>competitionScore = 50, competitionLevel = Medium, volumeScore = 50,
                           volumeLevel = Medium, trendDirection = Stable,
                           difficulty = MediumDifficulty\<rparr>,
              relevance' = 1 / 2, opportunityScore = 50, opportunityRating = Good,
              recommendation = ''Good supporting keyword for description''\<rparr>, g)"
    by (subst analyzeKeyword_eval[where kw = "''classic''" and cs = 50 and vol = 50 and td = Stable
          and g' = g and opp = 50 and cat = "''general''"])
       (simp_all add: scorer_defs)
  moreover have "round ((50 :: rat) * (4 / 10) + (100 - 50) * (4 / 10) + 0 * 20) = 40"
    by simp
  moreover have "computeOpportunityScore 50 50 (Some 0) = 50"
    by (simp add: computeOpportunityScore_def relevanceOrDefault_def)
  moreover have "computeOpportunityScore 50 50 (Some (1 / 10)) = 42"
    by (simp add: computeOpportunityScore_def relevanceOrDefault_def)
  ultimately show ?thesis by blast
qed

section \<open>Properties of the batch analyzer\<close>

lemma insertSorted_insort:
  "insertSorted compareFn x ys = insort_key (\<lambda>k. - opportunityScore k) x ys"
  by (induction ys) (auto simp: compareFn_def)

lemma sortWith_sort_key:
  "sortWith compareFn xs = sort_key (\<lambda>k. - opportunityScore k) xs"
proof -
  have "insertSorted compareFn = insort_key (\<lambda>k. - opportunityScore k)"
    by (intro ext) (rule insertSorted_insort)
  then show ?thesis by (simp add: sortWith_def sort_key_def)
qed

lemma sortWith_sorted:
  "sorted_wrt (\<lambda>a b. opportunityScore a \<ge> opportunityScore b) (sortWith compareFn xs)"
proof -
  have "sorted (map (\<lambda>k. - opportunityScore k) (sortWith compareFn xs))"
    by (simp add: sortWith_sort_key)
  then show ?thesis by (simp add: sorted_map)
qed

lemma sortWith_stable:
  "filter (\<lambda>k. opportunityScore k = s) (sortWith compareFn xs)
     = filter (\<lambda>k. opportunityScore k = s) xs"
proof -
  have "filter (\<lambda>k. - opportunityScore k = - s) (sort_key (\<lambda>k. - opportunityScore k) xs)
        = filter (\<lambda>k. - opportunityScore k = - s) xs"
    by (rule sort_key_stable)
  then show ?thesis by (simp add: sortWith_sort_key)
qed

lemma sortWith_mset: "mset (sortWith compareFn xs) = mset xs"
  by (simp add: sortWith_sort_key)

lemma sortWith_length: "length (sortWith compareFn xs) = length xs"
  by (simp add: sortWith_sort_key)

lemma analyzeEach_Inr:
  "analyzeEach g kds = (Inr ks, g') \<Longrightarrow>
     length ks = length kds \<and>
     (\<forall>i < length kds. \<exists>h h'. analyzeKeyword h (kds ! i) = (Inr (ks ! i), h'))"
proof (induction kds arbitrary: g ks g')
  case Nil
  then show ?case by simp
next
  case (Cons kd kds)
  from Cons.prems obtain k g1 ks' where
    k: "analyzeKeyword g kd = (Inr k, g1)" and
    r: "analyzeEach g1 kds = (Inr ks', g')" and
    ks: "ks = k # ks'"
    by (auto split: prod.splits sum.splits)
  from Cons.IH[OF r] have ih: "length ks' = length kds"
    "\<forall>i < length kds. \<exists>h h'. analyzeKeyword h (kds ! i) = (Inr (ks' ! i), h')" by auto
  show ?case
  proof (intro conjI allI impI)
    show "length ks = length (kd # kds)" using ih ks by simp
  next
    fix i assume "i < length (kd # kds)"
    then show "\<exists>h h'. analyzeKeyword h ((kd # kds) ! i) = (Inr (ks ! i), h')"
      using k ih ks by (cases i) auto
  qed
qed

lemma analyzeEach_Inl:
  "analyzeEach g kds = (Inl e, g') \<Longrightarrow> e = TypeError ToLowerCaseOfUndefined"
proof (induction kds arbitrary: g)
  case Nil
  then show ?case by simp
next
  case (Cons kd kds)
  then show ?case
    by (auto split: prod.splits sum.splits dest: analyzeKeyword_Inl)
qed

lemma analyzeEach_total:
  "\<forall>kd \<in> set kds. keywordText kd \<noteq> None \<Longrightarrow> \<exists>ks g'. analyzeEach g kds = (Inr ks, g')"
proof (induction kds arbitrary: g)
  case Nil
  then show ?case by simp
next
  case (Cons kd kds)
  from Cons.prems have "keywordText kd \<noteq> None" by simp
  from analyzeKeyword_total[OF this] obtain k g1 where k: "analyzeKeyword g kd = (Inr k, g1)"
    by blast
  from Cons.IH[of g1] Cons.prems obtain ks g' where "analyzeEach g1 kds = (Inr ks, g')"
    by auto
  with k show ?case by simp
qed

lemma analyzeKeywords_eval:
  assumes "keywords' a = ArrayValue kds" and "analyzeEach g kds = (Inr mapped, g')"
  shows "\<exists>rep. analyzeKeywords g now (Some a) = (Inr rep, g')
           \<and> allKeywords rep = sortWith compareFn mapped
           \<and> totalAnalyzed rep = length (allKeywords rep)
           \<and> topOpportunities (summary rep) = length (topKeywords (allKeywords rep))
           \<and> goodOpportunities (summary rep) = length (goodKeywords (allKeywords rep))
           \<and> lowPriority (summary rep) = length (lowPriorityKeywords (allKeywords rep))
           \<and> averageOpportunityScore (summary rep) = averageScore (allKeywords rep)"
  using assms by (simp add: analyzeKeywords_def Let_def)

lemma analyzeKeywords_Inl:
  assumes "analyzeKeywords g now (Some a) = (Inl e, g')"
  shows "(\<not> isArray (keywords' a) \<and> e = Error ''Keywords array is required'' \<and> g' = g)
       \<or> (isArray (keywords' a) \<and> e = TypeError ToLowerCaseOfUndefined)"
proof (cases "keywords' a")
  case (ArrayValue kds)
  with assms have "analyzeEach g kds = (Inl e, g')"
    by (auto simp: analyzeKeywords_def Let_def split: prod.splits sum.splits)
  from analyzeEach_Inl[OF this] ArrayValue show ?thesis by simp
qed (use assms in \<open>auto simp: analyzeKeywords_def\<close>)

lemma tiers_length:
  "length (topKeywords xs) + length (goodKeywords xs) + length (lowPriorityKeywords xs) = length xs"
  by (induction xs) (auto simp: topKeywords_def goodKeywords_def lowPriorityKeywords_def)

lemma tiers_mset:
  "mset (topKeywords xs) + mset (goodKeywords xs) + mset (lowPriorityKeywords xs) = mset xs"
  by (induction xs) (auto simp: topKeywords_def goodKeywords_def lowPriorityKeywords_def)

text \<open>Sample evaluations of the scorer, used by the examples below.\<close>

lemma eval_Tea:
  "analyzeKeyword (\<lambda>n. 1 / 2) (Bare ''Tea'')
     = (Inr \<lparr>keyword' = ''Tea'', category' = ''general'',
              analysis = \<lparr>competitionScore = 50, competitionLevel = Medium, volumeScore = 50,
                           volumeLevel = Medium, trendDirection = Stable,
                           difficulty = MediumDifficulty\<rparr>,
              relevance' = 1 / 2, opportunityScore = 50, opportunityRating = Good,
              recommendation = ''Good supporting keyword for description''\<rparr>, \<lambda>n. 1 / 2)"
  by (subst analyzeKeyword_eval[where kw = "''tea''" and cs = 50 and vol = 50 and td = Stable
        and g' = "\<lambda>n. 1 / 2" and opp = 50 and cat = "''general''"])
     (simp_all add: scorer_defs)

lemma eval_Mug:
  "analyzeKeyword (\<lambda>n. 1 / 2) (Bare ''Mug'')
     = (Inr \<lparr>keyword' = ''Mug'', category' = ''general'',
              analysis = \<lparr>competitionScore = 50, competitionLevel = Medium, volumeScore = 50,
                           volumeLevel = Medium, trendDirection = Stable,
                           difficulty = MediumDifficulty\<rparr>,
              relevance' = 1 / 2, opportunityScore = 50, opportunityRating = Good,
              recommendation = ''Good supporting keyword for description''\<rparr>, \<lambda>n. 1 / 2)"
  by (subst analyzeKeyword_eval[where kw = "''mug''" and cs = 50 and vol = 50 and td = Stable
        and g' = "\<lambda>n. 1 / 2" and opp = 50 and cat = "''general''"])
     (simp_all add: scorer_defs)

lemma eval_best:
  "analyzeKeyword (\<lambda>n. 1 / 2) (Bare ''best'')
     = (Inr \<lparr>keyword' = ''best'', category' = ''general'',
              analysis = \<lparr>competitionScore = 65, competitionLevel = Medium, volumeScore = 50,
                           volumeLevel = Medium, trendDirection = Stable,
                           difficulty = MediumDifficulty\<rparr>,
              relevance' = 1 / 2, opportunityScore = 44, opportunityRating = LowRating,
              recommendation = ''Consider for long-form content or tags only''\<rparr>, \<lambda>n. 1 / 2)"
  by (subst analyzeKeyword_eval[where kw = "''best''" and cs = 65 and vol = 50 and td = Stable
        and g' = "\<lambda>n. 1 / 2" and opp = 44 and cat = "''general''"])
     (simp_all add: scorer_defs)

lemma eval_viral:
  "analyzeKeyword (\<lambda>n. 1 / 2)
     (Fields \<lparr>keyword = Some ''hidden viral'', category = Some ''primary'',
              searchVolume = Some ''high'', competition = None, relevance = Some 1\<rparr>)
     = (Inr \<lparr>keyword' = ''hidden viral'', category' = ''primary'',
              analysis = \<lparr>competitionScore = 30, competitionLevel = Low, volumeScore = 100,
                           volumeLevel = High, trendDirection = Rising,
                           difficulty = Easy\<rparr>,
              relevance' = 1, opportunityScore = 88, opportunityRating = Excellent,
              recommendation = ''Highly recommended for title''\<rparr>, \<lambda>n. 1 / 2)"
  by (subst analyzeKeyword_eval[where kw = "''hidden viral''" and cs = 30 and vol = 100
        and td = Rising and g' = "\<lambda>n. 1 / 2" and opp = 88 and cat = "''primary''"])
     (simp_all add: scorer_defs)

text \<open>
  C3. For a batch in which every item has its keyword text, the report exists and its
  \<open>allKeywords\<close> is the list of analyzed keywords (one per input, in input order, called
  \<open>mapped\<close> here) rearranged in non-increasing order of \<open>opportunityScore\<close>, and the
  keywords of any one score appear in \<open>allKeywords\<close> in the order they have in \<open>mapped\<close>.
\<close>
theorem allKeywords_sorted_stable:
  assumes "keywords' a = ArrayValue kds"
    and "\<forall>kd \<in> set kds. keywordText kd \<noteq> None"
  shows "\<exists>rep mapped g'.
           analyzeKeywords g now (Some a) = (Inr rep, g')
         \<and> analyzeEach g kds = (Inr mapped, g')
         \<and> length mapped = length kds
         \<and> (\<forall>i < length kds. \<exists>h h'. analyzeKeyword h (kds ! i) = (Inr (mapped ! i), h'))
         \<and> allKeywords rep = sortWith compareFn mapped
         \<and> mset (allKeywords rep) = mset mapped
         \<and> sorted_wrt (\<lambda>x y. opportunityScore x \<ge> opportunityScore y) (allKeywords rep)
         \<and> (\<forall>s. filter (\<lambda>k. opportunityScore k = s) (allKeywords rep)
                  = filter (\<lambda>k. opportunityScore k = s) mapped)"
proof -
  from analyzeEach_total[OF assms(2)] obtain mapped g' where
    m: "analyzeEach g kds = (Inr mapped, g')" by blast
  from analyzeKeywords_eval[OF assms(1) m] obtain rep where
    r: "analyzeKeywords g now (Some a) = (Inr rep, g')"
       "allKeywords rep = sortWith compareFn mapped" by blast
  from analyzeEach_Inr[OF m] have
    i: "length mapped = length kds"
       "\<forall>i < length kds. \<exists>h h'. analyzeKeyword h (kds ! i) = (Inr (mapped ! i), h')"
    by blast+
  have "mset (allKeywords rep) = mset mapped"
    by (simp only: r(2) sortWith_mset)
  moreover have "sorted_wrt (\<lambda>x y. opportunityScore x \<ge> opportunityScore y) (allKeywords rep)"
    by (simp only: r(2) sortWith_sorted)
  moreover have "\<forall>s. filter (\<lambda>k. opportunityScore k = s) (allKeywords rep)
                  = filter (\<lambda>k. opportunityScore k = s) mapped"
    by (simp only: r(2) sortWith_stable) simp
  ultimately show ?thesis using m r i by blast
qed

theorem allKeywords_sorted_stable_witness:
  "\<exists>rep mapped g'.
      analyzeKeywords (\<lambda>n. 1 / 2) ''2025-01-01T00:00:00.000Z''
        (Some \<lparr>keywords' = ArrayValue [Bare ''Tea'', Bare ''best'', Bare ''Mug''],
               concept = None, targetAudience = None, niche = None\<rparr>) = (Inr rep, g')
    \<and> analyzeEach (\<lambda>n. 1 / 2) [Bare ''Tea'', Bare ''best'', Bare ''Mug''] = (Inr mapped, g')
    \<and> map keyword' mapped = [''Tea'', ''best'', ''Mug'']
    \<and> map opportunityScore mapped = [50, 44, 50]
    \<and> map keyword' (allKeywords rep) = [''Tea'', ''Mug'', ''best'']
    \<and> map opportunityScore (allKeywords rep) = [50, 50, 44]"
proof -
  have wf: "\<forall>kd \<in> set [Bare ''Tea'', Bare ''best'', Bare ''Mug'']. keywordText kd \<noteq> None"
    by (simp add: keywordText_def)
  have k: "keywords' \<lparr>keywords' = ArrayValue [Bare ''Tea'', Bare ''best'', Bare ''Mug''],
               concept = None, targetAudience = None, niche = None\<rparr>
           = ArrayValue [Bare ''Tea'', Bare ''best'', Bare ''Mug'']"
    by simp
  from allKeywords_sorted_stable[OF k wf, of "\<lambda>n. 1 / 2" "''2025-01-01T00:00:00.000Z''"]
  obtain rep mapped g' where
    r: "analyzeKeywords (\<lambda>n. 1 / 2) ''2025-01-01T00:00:00.000Z''
        (Some \<lparr>keywords' = ArrayValue [Bare ''Tea'', Bare ''best'', Bare ''Mug''],
               concept = None, targetAudience = None, niche = None\<rparr>) = (Inr rep, g')"
    and m: "analyzeEach (\<lambda>n. 1 / 2) [Bare ''Tea'', Bare ''best'', Bare ''Mug''] = (Inr mapped, g')"
    and s: "allKeywords rep = sortWith compareFn mapped"
    by blast
  have a: "map keyword' mapped = [''Tea'', ''best'', ''Mug'']"
    "map opportunityScore mapped = [50, 44, 50]"
    using m by (auto simp: eval_Tea eval_best eval_Mug)
  have b: "map keyword' (allKeywords rep) = [''Tea'', ''Mug'', ''best'']"
    "map opportunityScore (allKeywords rep) = [50, 50, 44]"
    using m by (auto simp: s eval_Tea eval_best eval_Mug sortWith_def compareFn_def)
  from r m a b show ?thesis
    by - (intro exI conjI, assumption+)
qed

text \<open>
  C5. For a batch in which every item has its keyword text, the three tiers partition the
  analyzed keywords: the three counts of the summary are the sizes of the tiers and sum to
  \<open>totalAnalyzed\<close>, which is the size of the batch; the tiers together hold exactly the
  keywords of \<open>allKeywords\<close>, are pairwise disjoint, and a keyword is in the top tier iff
  its score is at least 70, in the good tier iff it is at least 50 and below 70, and in
  the low tier iff it is below 50.
\<close>
theorem tiers_partition:
  assumes "keywords' a = ArrayValue kds"
    and "\<forall>kd \<in> set kds. keywordText kd \<noteq> None"
  shows "\<exists>rep g'.
           analyzeKeywords g now (Some a) = (Inr rep, g')
         \<and> totalAnalyzed rep = length kds
         \<and> topOpportunities (summary rep) = length (topKeywords (allKeywords rep))
         \<and> goodOpportunities (summary rep) = length (goodKeywords (allKeywords rep))
         \<and> lowPriority (summary rep) = length (lowPriorityKeywords (allKeywords rep))
         \<and> topOpportunities (summary rep) + goodOpportunities (summary rep)
             + lowPriority (summary rep) = totalAnalyzed rep
         \<and> mset (topKeywords (allKeywords rep)) + mset (goodKeywords (allKeywords rep))
             + mset (lowPriorityKeywords (allKeywords rep)) = mset (allKeywords rep)
         \<and> set (topKeywords (allKeywords rep)) \<inter> set (goodKeywords (allKeywords rep)) = {}
         \<and> set (topKeywords (allKeywords rep)) \<inter> set (lowPriorityKeywords (allKeywords rep)) = {}
         \<and> set (goodKeywords (allKeywords rep)) \<inter> set (lowPriorityKeywords (allKeywords rep)) = {}
         \<and> (\<forall>k \<in> set (allKeywords rep).
                (k \<in> set (topKeywords (allKeywords rep)) \<longleftrightarrow> 70 \<le> opportunityScore k)
              \<and> (k \<in> set (goodKeywords (allKeywords rep))
                    \<longleftrightarrow> 50 \<le> opportunityScore k \<and> opportunityScore k < 70)
              \<and> (k \<in> set (lowPriorityKeywords (allKeywords rep)) \<longleftrightarrow> opportunityScore k < 50))"
proof -
  from analyzeEach_total[OF assms(2)] obtain mapped g' where
    m: "analyzeEach g kds = (Inr mapped, g')" by blast
  from analyzeKeywords_eval[OF assms(1) m] obtain rep where
    r: "analyzeKeywords g now (Some a) = (Inr rep, g')"
       "allKeywords rep = sortWith compareFn mapped"
       "totalAnalyzed rep = length (allKeywords rep)"
       "topOpportunities (summary rep) = length (topKeywords (allKeywords rep))"
       "goodOpportunities (summary rep) = length (goodKeywords (allKeywords rep))"
       "lowPriority (summary rep) = length (lowPriorityKeywords (allKeywords rep))"
    by blast
  have n: "totalAnalyzed rep = length kds"
    using analyzeEach_Inr[OF m] by (simp add: r(2,3) sortWith_length)
  have s: "topOpportunities (summary rep) + goodOpportunities (summary rep)
             + lowPriority (summary rep) = totalAnalyzed rep"
    by (simp only: r(3-6) tiers_length)
  have d: "set (topKeywords (allKeywords rep)) \<inter> set (goodKeywords (allKeywords rep)) = {}"
    "set (topKeywords (allKeywords rep)) \<inter> set (lowPriorityKeywords (allKeywords rep)) = {}"
    "set (goodKeywords (allKeywords rep)) \<inter> set (lowPriorityKeywords (allKeywords rep)) = {}"
    by (auto simp: topKeywords_def goodKeywords_def lowPriorityKeywords_def)
  have b: "\<forall>k \<in> set (allKeywords rep).
                (k \<in> set (topKeywords (allKeywords rep)) \<longleftrightarrow> 70 \<le> opportunityScore k)
              \<and> (k \<in> set (goodKeywords (allKeywords rep))
                    \<longleftrightarrow> 50 \<le> opportunityScore k \<and> opportunityScore k < 70)
              \<and> (k \<in> set (lowPriorityKeywords (allKeywords rep)) \<longleftrightarrow> opportunityScore k < 50)"
    by (simp add: topKeywords_def goodKeywords_def lowPriorityKeywords_def)
  from r(1) n r(4-6) s tiers_mset[of "allKeywords rep"] d b show ?thesis
    by - (intro exI conjI, assumption+)
qed

theorem tiers_partition_witness:
  "\<exists>rep g'.
      analyzeKeywords (\<lambda>n. 1 / 2) ''2025-01-01T00:00:00.000Z''
        (Some \<lparr>keywords' = ArrayValue
                  [Bare ''Tea'', Bare ''best'',
                   Fields \<lparr>keyword = Some ''hidden viral'', category = Some ''primary'',
                           searchVolume = Some ''high'', competition = None,
                           relevance = Some 1\<rparr>],
               concept = None, targetAudience = None, niche = None\<rparr>) = (Inr rep, g')
    \<and> map opportunityScore (allKeywords rep) = [88, 50, 44]
    \<and> totalAnalyzed rep = 3
    \<and> topOpportunities (summary rep) = 1
    \<and> goodOpportunities (summary rep) = 1
    \<and> lowPriority (summary rep) = 1"
proof -
  let ?viral = "Fields \<lparr>keyword = Some ''hidden viral'', category = Some ''primary'',
                         searchVolume = Some ''high'', competition = None, relevance = Some 1\<rparr>"
  let ?kds = "[Bare ''Tea'', Bare ''best'', ?viral]"
  let ?k = "\<lambda>kd. projr (fst (analyzeKeyword (\<lambda>n. 1 / 2) kd))"
  let ?a = "\<lparr>keywords' = ArrayValue ?kds, concept = None, targetAudience = None, niche = None\<rparr>"
  have wf: "\<forall>kd \<in> set ?kds. keywordText kd \<noteq> None"
    by (simp add: keywordText_def)
  have k: "keywords' ?a = ArrayValue ?kds" by simp
  have m: "analyzeEach (\<lambda>n. 1 / 2) ?kds
            = (Inr [?k (Bare ''Tea''),
                    ?k (Bare ''best''),
                    ?k ?viral], \<lambda>n. 1 / 2)"
    by (simp add: eval_Tea eval_best eval_viral)
  from tiers_partition[OF k wf, of "\<lambda>n. 1 / 2" "''2025-01-01T00:00:00.000Z''"]
  obtain rep g' where
    r: "analyzeKeywords (\<lambda>n. 1 / 2) ''2025-01-01T00:00:00.000Z'' (Some ?a) = (Inr rep, g')"
    and t: "totalAnalyzed rep = length ?kds"
      "topOpportunities (summary rep) = length (topKeywords (allKeywords rep))"
      "goodOpportunities (summary rep) = length (goodKeywords (allKeywords rep))"
      "lowPriority (summary rep) = length (lowPriorityKeywords (allKeywords rep))"
    by blast
  from analyzeKeywords_eval[OF k m, of "''2025-01-01T00:00:00.000Z''"] r
  have s: "allKeywords rep = sortWith compareFn
             [?k (Bare ''Tea''),
              ?k (Bare ''best''),
              ?k ?viral]"
    by auto
  have v: "map opportunityScore (allKeywords rep) = [88, 50, 44]"
    by (simp add: s eval_Tea eval_best eval_viral sortWith_def compareFn_def)
  have c: "totalAnalyzed rep = 3" "topOpportunities (summary rep) = 1"
    "goodOpportunities (summary rep) = 1" "lowPriority (summary rep) = 1"
    by (simp_all add: t s eval_Tea eval_best eval_viral sortWith_def compareFn_def
          topKeywords_def goodKeywords_def lowPriorityKeywords_def)
  from r v c show ?thesis
    by - (intro exI conjI, assumption+)
qed

text \<open>
  C6. On the empty array the batch analyzer does not throw: it returns a report with no
  keywords, whose \<open>averageOpportunityScore\<close> is \<open>Math.round(0 / 0)\<close>, that is \<open>NaN\<close>: the
  result of the division by zero, not a value chosen for the empty batch.
\<close>
theorem empty_batch_average_is_NaN:
  "\<exists>rep. analyzeKeywords g now
            (Some \<lparr>keywords' = ArrayValue [], concept = c, targetAudience = t, niche = n\<rparr>)
          = (Inr rep, g)
        \<and> allKeywords rep = []
        \<and> totalAnalyzed rep = 0
        \<and> averageOpportunityScore (summary rep) = NaN"
proof -
  have k: "keywords' \<lparr>keywords' = ArrayValue [], concept = c, targetAudience = t, niche = n\<rparr>
           = ArrayValue []"
    by simp
  have m: "analyzeEach g [] = (Inr [], g)" by simp
  from analyzeKeywords_eval[OF k m, of now] obtain rep where
    r: "analyzeKeywords g now
          (Some \<lparr>keywords' = ArrayValue [], concept = c, targetAudience = t, niche = n\<rparr>)
        = (Inr rep, g)"
     "allKeywords rep = sortWith compareFn []"
     "totalAnalyzed rep = length (allKeywords rep)"
     "averageOpportunityScore (summary rep) = averageScore (allKeywords rep)"
    by blast
  have e: "allKeywords rep = []" by (simp add: r(2) sortWith_def)
  have "totalAnalyzed rep = 0" by (simp add: r(3) e)
  moreover have "averageOpportunityScore (summary rep) = NaN"
    by (simp add: r(4) e averageScore_def)
  ultimately show ?thesis using r(1) e
    by - (intro exI conjI, assumption+)
qed

theorem empty_batch_average_is_NaN_witness:
  "\<exists>rep. analyzeKeywords (\<lambda>n. 1 / 2) ''2025-01-01T00:00:00.000Z''
            (Some \<lparr>keywords' = ArrayValue [], concept = None, targetAudience = None,
                   niche = None\<rparr>)
          = (Inr rep, \<lambda>n. 1 / 2)
        \<and> allKeywords rep = []
        \<and> totalAnalyzed rep = 0
        \<and> averageOpportunityScore (summary rep) = NaN"
  by (rule empty_batch_average_is_NaN)

section \<open>Properties of the router\<close>

lemma onMessage_tools_call:
  "onMessage g now (Parsed \<lparr>method' = Some ''tools/call'', params = Some p, id' = i\<rparr>)
     = (case handleToolCall g now (Some p) i of
          (Inr resp, g') \<Rightarrow> (resp, g')
        | (Inl e, g') \<Rightarrow> (ErrorEnvelope (- 32700) (Text ''Parse error'') IdNull, g'))"
  by (simp add: onMessage_def handleRequest_def)

lemma handleToolCall_analyze:
  "handleToolCall g now (Some \<lparr>name = Some ''analyzeKeywords'', arguments = Some a\<rparr>) i
     = (case analyzeKeywords g now (Some a) of
          (Inr rep, g') \<Rightarrow> (Inr (Result (Content rep) i), g')
        | (Inl e, g') \<Rightarrow> (Inr (ErrorEnvelope (- 32603) (messageOf e) i), g'))"
  by (simp add: handleToolCall_def)

text \<open>
  C7. A \<open>tools/call\<close> of \<open>analyzeKeywords\<close> with an arguments object: when \<open>keywords\<close> is
  missing, null or any other value that is not an array, the response is the error envelope
  with code -32603, the message \<open>Keywords array is required\<close> and the request's id; when
  \<open>keywords\<close> is an array, no envelope with that message is produced.
\<close>
theorem keywords_array_required:
  "(keywords' a = Undefined \<or> keywords' a = Null \<or> \<not> isArray (keywords' a) \<longrightarrow>
      onMessage g now
        (Parsed \<lparr>method' = Some ''tools/call'',
                 params = Some \<lparr>name = Some ''analyzeKeywords'', arguments = Some a\<rparr>,
                 id' = i\<rparr>)
      = (ErrorEnvelope (- 32603) (Text ''Keywords array is required'') i, g))
   \<and> (isArray (keywords' a) \<longrightarrow>
      (\<forall>code j. fst (onMessage g now
        (Parsed \<lparr>method' = Some ''tools/call'',
                 params = Some \<lparr>name = Some ''analyzeKeywords'', arguments = Some a\<rparr>,
                 id' = i\<rparr>))
      \<noteq> ErrorEnvelope code (Text ''Keywords array is required'') j))"
proof (intro conjI impI allI)
  assume "keywords' a = Undefined \<or> keywords' a = Null \<or> \<not> isArray (keywords' a)"
  then have "\<not> isArray (keywords' a)" by auto
  then have "analyzeKeywords g now (Some a) = (Inl (Error ''Keywords array is required''), g)"
    by (simp add: analyzeKeywords_def)
  then show "onMessage g now
        (Parsed \<lparr>method' = Some ''tools/call'',
                 params = Some \<lparr>name = Some ''analyzeKeywords'', arguments = Some a\<rparr>,
                 id' = i\<rparr>)
      = (ErrorEnvelope (- 32603) (Text ''Keywords array is required'') i, g)"
    by (simp add: onMessage_tools_call handleToolCall_analyze)
next
  fix code j
  assume arr: "isArray (keywords' a)"
  obtain r g' where r: "analyzeKeywords g now (Some a) = (r, g')"
    by (cases "analyzeKeywords g now (Some a)")
  show "fst (onMessage g now
        (Parsed \<lparr>method' = Some ''tools/call'',
                 params = Some \<lparr>name = Some ''analyzeKeywords'', arguments = Some a\<rparr>,
                 id' = i\<rparr>))
      \<noteq> ErrorEnvelope code (Text ''Keywords array is required'') j"
  proof (cases r)
    case (Inl e)
    with r arr analyzeKeywords_Inl[of g now a e g'] have "e = TypeError ToLowerCaseOfUndefined"
      by auto
    with r Inl show ?thesis
      by (simp add: onMessage_tools_call handleToolCall_analyze)
  next
    case (Inr rep)
    with r show ?thesis
      by (simp add: onMessage_tools_call handleToolCall_analyze)
  qed
qed

theorem keywords_array_required_witness:
  "onMessage (\<lambda>n. 1 / 2) ''2025-01-01T00:00:00.000Z''
     (Parsed \<lparr>method' = Some ''tools/call'',
              params = Some \<lparr>name = Some ''analyzeKeywords'',
                              arguments = Some \<lparr>keywords' = StringValue ''tea, mug'',
                                                 concept = None, targetAudience = None,
                                                 niche = None\<rparr>\<rparr>,
              id' = IdNumber 7\<rparr>)
     = (ErrorEnvelope (- 32603) (Text ''Keywords array is required'') (IdNumber 7), \<lambda>n. 1 / 2)
   \<and> fst (onMessage (\<lambda>n. 1 / 2) ''2025-01-01T00:00:00.000Z''
     (Parsed \<lparr>method' = Some ''tools/call'',
              params = Some \<lparr>name = Some ''analyzeKeywords'',
                              arguments = Some \<lparr>keywords' = ArrayValue [Bare ''Tea''],
                                                 concept = None, targetAudience = None,
                                                 niche = None\<rparr>\<rparr>,
              id' = IdNumber 8\<rparr>))
     \<noteq> ErrorEnvelope (- 32603) (Text ''Keywords array is required'') (IdNumber 8)"
  using keywords_array_required
          [of "\<lparr>keywords' = StringValue ''tea, mug'', concept = None, targetAudience = None,
                niche = None\<rparr>" "\<lambda>n. 1 / 2" "''2025-01-01T00:00:00.000Z''" "IdNumber 7"]
        keywords_array_required
          [of "\<lparr>keywords' = ArrayValue [Bare ''Tea''], concept = None, targetAudience = None,
                niche = None\<rparr>" "\<lambda>n. 1 / 2" "''2025-01-01T00:00:00.000Z''" "IdNumber 8"]
  by simp

text \<open>
  C10. A \<open>tools/call\<close> request without \<open>params\<close>: the router returns no envelope, it
  throws the \<open>TypeError\<close> of the destructuring; the message handler answers with code
  -32700, \<open>Parse error\<close> and id null, whatever the id of the request was.
\<close>
theorem tools_call_without_params:
  assumes "method' req = Some ''tools/call''" and "params req = None"
  shows "handleRequest g now req = (Inl (TypeError DestructureParams), g)
       \<and> onMessage g now (Parsed req)
           = (ErrorEnvelope (- 32700) (Text ''Parse error'') IdNull, g)"
  using assms by (simp add: onMessage_def handleRequest_def handleToolCall_def)

theorem tools_call_without_params_witness:
  "handleRequest (\<lambda>n. 1 / 2) ''2025-01-01T00:00:00.000Z''
     \<lparr>method' = Some ''tools/call'', params = None, id' = IdNumber 7\<rparr>
     = (Inl (TypeError DestructureParams), \<lambda>n. 1 / 2)
   \<and> onMessage (\<lambda>n. 1 / 2) ''2025-01-01T00:00:00.000Z''
       (Parsed \<lparr>method' = Some ''tools/call'', params = None, id' = IdNumber 7\<rparr>)
     = (ErrorEnvelope (- 32700) (Text ''Parse error'') IdNull, \<lambda>n. 1 / 2)"
  using tools_call_without_params
          [of "\<lparr>method' = Some ''tools/call'', params = None, id' = IdNumber 7\<rparr>"
              "\<lambda>n. 1 / 2" "''2025-01-01T00:00:00.000Z''"]
  by simp

end
